theory Spec2Isabelle
  imports Main "HOL-Library.Sublist"
begin

section \<open>The service worker of Amino Gym: data model\<close>

text \<open>
  The worker (\<^verbatim>\<open>sw.js\<close>) intercepts the page's requests and answers them from the
  network or from the platform's cache storage. The platform objects it works on are
  modelled as follows.

  \<^item> A response carries its status, its body, its \<^verbatim>\<open>date\<close> header (\<open>None\<close> when
    \<^verbatim>\<open>headers.get("date")\<close> is \<^verbatim>\<open>null\<close>) and the field values of its \<^verbatim>\<open>Vary\<close>
    header (none when it has no such header). \<^verbatim>\<open>response.ok\<close> is the platform's
    getter: the status is in the range 200 to 299.
  \<^item> A request carries the fields the worker reads; its headers are not modelled, so
    two requests for one URL do not differ in a header that a \<^verbatim>\<open>Vary\<close> names.
    \<open>http_method\<close> is \<^verbatim>\<open>request.method\<close>, and \<open>pathname\<close> stands for
    \<^verbatim>\<open>new URL(request.url).pathname\<close>. URLs are written relative to the worker's
    origin, so that the string \<^verbatim>\<open>"/"\<close> given to \<^verbatim>\<open>caches.match\<close> and the
    strings of the pre-cache lists are cache keys as they stand.
  \<^item> \<^verbatim>\<open>fetch\<close> either rejects (a transport failure) or fulfils with a response of
    any status. The network is a parameter: a function from the URL to the outcome.
  \<^item> A cache holds at most one response per key. The cache storage is the list of
    the named caches in creation order, the order of \<^verbatim>\<open>caches.keys()\<close> and the
    order in which \<^verbatim>\<open>caches.match\<close> searches.
\<close>

datatype error = FetchError string

record response =
  status :: nat
  body :: string
  date :: "string option"
  vary :: "string list"

definition ok :: "response \<Rightarrow> bool" where
  "ok r = (200 \<le> status r \<and> status r \<le> 299)"

record request =
  http_method :: string
  url :: string
  pathname :: string
  destination :: string
  mode :: string

datatype fetch_outcome = Rejected error | Fulfilled response

type_synonym network = "string \<Rightarrow> fetch_outcome"

type_synonym cache = "string \<rightharpoonup> response"

type_synonym cache_storage = "(string \<times> cache) list"

subsection \<open>Constants of the worker\<close>

definition CACHE_NAME :: string where
  "CACHE_NAME = ''amino-gym-v2''"

definition STATIC_CACHE :: string where
  "STATIC_CACHE = ''amino-gym-static-v2''"

definition DYNAMIC_CACHE :: string where
  "DYNAMIC_CACHE = ''amino-gym-dynamic-v2''"

definition IMAGE_CACHE :: string where
  "IMAGE_CACHE = ''amino-gym-images-v2''"

definition CRITICAL_RESOURCES :: "string list" where
  "CRITICAL_RESOURCES =
     [''/'', ''/home'', ''/login'', ''/yacin-gym-logo.png'', ''/success-sound.mp3'']"

definition STATIC_ASSETS :: "string list" where
  "STATIC_ASSETS = [''/manifest.json'']"

subsection \<open>The platform's cache storage\<close>

text \<open>
  \<^verbatim>\<open>caches.keys()\<close>, \<^verbatim>\<open>caches.open(name)\<close> (creates the cache when absent, at the
  end of the creation order), \<^verbatim>\<open>caches.delete(name)\<close>, \<^verbatim>\<open>caches.match(key)\<close>
  (the first cache in creation order that holds the key answers) and
  \<^verbatim>\<open>cache.put(key, response)\<close> on the cache opened under a name (overwrites).
\<close>

definition caches_keys :: "cache_storage \<Rightarrow> string list" where
  "caches_keys st = map fst st"

definition caches_open :: "cache_storage \<Rightarrow> string \<Rightarrow> cache_storage" where
  "caches_open st name = (if name \<in> set (caches_keys st) then st else st @ [(name, Map.empty)])"

definition caches_delete :: "cache_storage \<Rightarrow> string \<Rightarrow> cache_storage" where
  "caches_delete st name = filter (\<lambda>(n, c). n \<noteq> name) st"

fun caches_match :: "cache_storage \<Rightarrow> string \<Rightarrow> response option" where
  "caches_match [] key = None"
| "caches_match ((n, c) # st) key =
     (case c key of Some r \<Rightarrow> Some r | None \<Rightarrow> caches_match st key)"

fun cache_put :: "cache_storage \<Rightarrow> string \<Rightarrow> string \<Rightarrow> response \<Rightarrow> cache_storage" where
  "cache_put [] name key r = []"
| "cache_put ((n, c) # st) name key r =
     (if n = name then (n, c(key \<mapsto> r)) # st else (n, c) # cache_put st name key r)"

text \<open>
  The platform does not store every response. \<^verbatim>\<open>cache.put\<close> rejects with a
  \<^verbatim>\<open>TypeError\<close>, storing nothing, when the response is partial (status 206) or its
  \<^verbatim>\<open>Vary\<close> header has the value \<^verbatim>\<open>*\<close>; \<^verbatim>\<open>cache.addAll\<close> rejects for the same
  responses. The other reasons it has to reject do not arise in the worker: the requests
  it puts are GET requests (the fetch listener leaves every other request alone) to
  http or https URLs, and the response it puts is a clone or has not been read. A
  storage that fails (no room left) is not modelled.
\<close>

definition put_rejects :: "response \<Rightarrow> bool" where
  "put_rejects r = (status r = 206 \<or> ''*'' \<in> set (vary r))"

text \<open>The entries of the cache named \<open>name\<close>; no entries when there is no such cache.\<close>

definition namespace_entries :: "cache_storage \<Rightarrow> string \<Rightarrow> cache" where
  "namespace_entries st name = (case map_of st name of None \<Rightarrow> Map.empty | Some c \<Rightarrow> c)"

section \<open>Lifecycle\<close>

subsection \<open>Install\<close>

text \<open>
  \<^verbatim>\<open>cache.addAll(urls)\<close> is the platform's: it fetches every URL and rejects, writing
  nothing, when one fetch fails, answers with a status that is not ok, or answers with a
  response that the cache does not store (\<open>put_rejects\<close>); otherwise it puts every
  response under its URL. \<open>fetch_all\<close> is the fetching half, \<open>None\<close> being the
  rejection.
\<close>

fun fetch_all :: "network \<Rightarrow> string list \<Rightarrow> (string \<times> response) list option" where
  "fetch_all net [] = Some []"
| "fetch_all net (u # us) =
     (case net u of
        Rejected e \<Rightarrow> None
      | Fulfilled r \<Rightarrow>
          if ok r \<and> \<not> put_rejects r
          then map_option (\<lambda>es. (u, r) # es) (fetch_all net us) else None)"

fun put_all :: "cache_storage \<Rightarrow> string \<Rightarrow> (string \<times> response) list \<Rightarrow> cache_storage" where
  "put_all st name [] = st"
| "put_all st name ((k, r) # es) = put_all (cache_put st name k r) name es"

definition cache_addAll ::
  "network \<Rightarrow> cache_storage \<Rightarrow> string \<Rightarrow> string list \<Rightarrow> bool \<times> cache_storage" where
  "cache_addAll net st name urls =
     (case fetch_all net urls of
        None \<Rightarrow> (False, st)
      | Some es \<Rightarrow> (True, put_all st name es))"

text \<open>
  The install listener waits for both \<^verbatim>\<open>caches.open(...).then(addAll)\<close> chains
  (\<^verbatim>\<open>Promise.all\<close>) and calls \<^verbatim>\<open>self.skipWaiting()\<close> when both are fulfilled;
  when one rejects, the promise given to \<^verbatim>\<open>event.waitUntil\<close> rejects and the
  install fails. Each chain runs to its end whatever the other does, and the two write
  to different caches, so running the first before the second loses nothing.
\<close>

datatype install_outcome = Installed | InstallFailed

definition install :: "network \<Rightarrow> cache_storage \<Rightarrow> install_outcome \<times> cache_storage" where
  "install net st =
     (let st1 = caches_open st CACHE_NAME;
          (done1, st2) = cache_addAll net st1 CACHE_NAME CRITICAL_RESOURCES;
          st3 = caches_open st2 STATIC_CACHE;
          (done2, st4) = cache_addAll net st3 STATIC_CACHE STATIC_ASSETS
      in (if done1 \<and> done2 then Installed else InstallFailed, st4))"

subsection \<open>Activate\<close>

text \<open>
  The activate listener walks \<^verbatim>\<open>caches.keys()\<close> and deletes every cache whose name
  is not one of the four constants. (\<^verbatim>\<open>self.clients.claim()\<close> runs beside it and
  does not touch the cache storage.)
\<close>

definition current_caches :: "string list" where
  "current_caches = [CACHE_NAME, STATIC_CACHE, DYNAMIC_CACHE, IMAGE_CACHE]"

definition activate :: "cache_storage \<Rightarrow> cache_storage" where
  "activate st =
     foldl (\<lambda>s cacheName.
              if cacheName \<notin> set current_caches then caches_delete s cacheName else s)
       st (caches_keys st)"

section \<open>Strategies\<close>

text \<open>
  A strategy is an \<^verbatim>\<open>async\<close> function. Its model returns three things:
  \<^item> what the caller gets: \<open>Inl e\<close> when the function throws \<open>e\<close>, \<open>Inr (Some r)\<close>
    when it returns the response \<open>r\<close>, \<open>Inr None\<close> when it returns
    \<^verbatim>\<open>undefined\<close>;
  \<^item> the cache storage at the moment it returns;
  \<^item> the operations it has started and not awaited, in program order:
    \<^verbatim>\<open>cache.put(request, response)\<close> on an opened cache, and the background
    \<^verbatim>\<open>fetch(request).then(...)\<close> of the Cache-First strategy.

  \<open>settle\<close> gives the cache storage once such an operation has run to its end. A put
  that the platform rejects stores nothing. Its rejection reaches no handler: the promise
  of \<^verbatim>\<open>cache.put\<close> is neither awaited nor returned, so the \<^verbatim>\<open>try\<close> of Network First
  and the \<^verbatim>\<open>.catch\<close> of the background refetch do not see it (\<open>put_unhandled\<close>). The
  rejection of the background \<^verbatim>\<open>fetch\<close> itself is caught by that \<^verbatim>\<open>.catch\<close>.
\<close>

datatype background =
    CachePut string string response
  | Revalidate string string

type_synonym strategy_result = "(error + response option) \<times> cache_storage \<times> background list"

fun settle :: "network \<Rightarrow> cache_storage \<Rightarrow> background \<Rightarrow> cache_storage" where
  "settle net st (CachePut cacheName key r) =
     (if put_rejects r then st else cache_put st cacheName key r)"
| "settle net st (Revalidate key cacheName) =
     (case net key of
        Rejected e \<Rightarrow> st
      | Fulfilled r \<Rightarrow>
          if ok r
          then (if put_rejects r then caches_open st cacheName
                else cache_put (caches_open st cacheName) cacheName key r)
          else st)"

fun put_unhandled :: "network \<Rightarrow> background \<Rightarrow> bool" where
  "put_unhandled net (CachePut cacheName key r) = put_rejects r"
| "put_unhandled net (Revalidate key cacheName) =
     (case net key of
        Rejected e \<Rightarrow> False
      | Fulfilled r \<Rightarrow> ok r \<and> put_rejects r)"

definition settle_all :: "network \<Rightarrow> cache_storage \<Rightarrow> background list \<Rightarrow> cache_storage" where
  "settle_all net st ops = foldl (settle net) st ops"

subsection \<open>Network First\<close>

text \<open>
  The last fallback of the source is
  \<^verbatim>\<open>return caches.match("/") || new Response("Offline", { status: 503 })\<close>.
  The left operand of \<^verbatim>\<open>||\<close> is the promise that \<^verbatim>\<open>caches.match\<close> returns, not
  the value it resolves to. \<open>truthy\<close> is JavaScript's \<^verbatim>\<open>ToBoolean\<close> on a promise
  (an object: always true), and an \<^verbatim>\<open>async\<close> function that returns a promise
  resolves to that promise's value (\<open>await\<close>).
\<close>

datatype 'a promise = Promise 'a

definition truthy :: "'a promise \<Rightarrow> bool" where
  "truthy p = True"

fun await :: "'a promise \<Rightarrow> 'a" where
  "await (Promise v) = v"

definition offline_response :: response where
  "offline_response = \<lparr>status = 503, body = ''Offline'', date = None, vary = []\<rparr>"

definition networkFirstStrategy ::
  "network \<Rightarrow> cache_storage \<Rightarrow> request \<Rightarrow> string \<Rightarrow> strategy_result" where
  "networkFirstStrategy net st request cacheName =
     (case net (url request) of
        Fulfilled networkResponse \<Rightarrow>
          if ok networkResponse
          then (Inr (Some networkResponse), caches_open st cacheName,
                [CachePut cacheName (url request) networkResponse])
          else (Inr (Some networkResponse), st, [])
      | Rejected error \<Rightarrow>
          (case caches_match st (url request) of
             Some cachedResponse \<Rightarrow> (Inr (Some cachedResponse), st, [])
           | None \<Rightarrow>
               if mode request = ''navigate''
               then (let p = Promise (caches_match st ''/'')
                     in (Inr (if truthy p then await p else Some offline_response), st, []))
               else (Inl error, st, [])))"

subsection \<open>Cache First\<close>

text \<open>
  \<^verbatim>\<open>new Date(cachedResponse.headers.get("date") || 0)\<close>: a header that is absent or
  empty gives the epoch; any other header is parsed by the platform (\<open>parseDate\<close>, a
  parameter), \<open>None\<close> being the invalid date. Dates are milliseconds since the epoch.
  A comparison with the invalid date is false.
\<close>

definition oneHour :: int where
  "oneHour = 60 * 60 * 1000"

definition cacheDate :: "(string \<Rightarrow> int option) \<Rightarrow> response \<Rightarrow> int option" where
  "cacheDate parseDate cachedResponse =
     (case date cachedResponse of
        None \<Rightarrow> Some 0
      | Some s \<Rightarrow> if s = [] then Some 0 else parseDate s)"

definition older_than_oneHour :: "(string \<Rightarrow> int option) \<Rightarrow> int \<Rightarrow> response \<Rightarrow> bool" where
  "older_than_oneHour parseDate now cachedResponse =
     (case cacheDate parseDate cachedResponse of
        None \<Rightarrow> False
      | Some d \<Rightarrow> now - d > oneHour)"

definition cacheFirstStrategy ::
  "network \<Rightarrow> (string \<Rightarrow> int option) \<Rightarrow> int \<Rightarrow> cache_storage \<Rightarrow> request \<Rightarrow> string
     \<Rightarrow> strategy_result" where
  "cacheFirstStrategy net parseDate now st request cacheName =
     (case caches_match st (url request) of
        Some cachedResponse \<Rightarrow>
          (Inr (Some cachedResponse), st,
           if older_than_oneHour parseDate now cachedResponse
           then [Revalidate (url request) cacheName] else [])
      | None \<Rightarrow>
          (case net (url request) of
             Fulfilled networkResponse \<Rightarrow>
               if ok networkResponse
               then (Inr (Some networkResponse), caches_open st cacheName,
                     [CachePut cacheName (url request) networkResponse])
               else (Inr (Some networkResponse), st, [])
           | Rejected error \<Rightarrow> (Inl error, st, [])))"

section \<open>The fetch listener\<close>

text \<open>
  \<^verbatim>\<open>url.pathname.startsWith("/api/")\<close> and
  \<^verbatim>\<open>url.pathname.match(/\.(js|css|woff2?)$/)\<close>: the regular expression is searched
  from every position of the path, and has to reach the end of it.
\<close>

definition startsWith :: "string \<Rightarrow> string \<Rightarrow> bool" where
  "startsWith s p = (take (length p) s = p)"

fun match_static :: "string \<Rightarrow> bool" where
  "match_static [] = False"
| "match_static (c # cs) =
     ((c = CHR ''.'' \<and> (cs = ''js'' \<or> cs = ''css'' \<or> cs = ''woff'' \<or> cs = ''woff2''))
      \<or> match_static cs)"

text \<open>
  The listener returns \<open>None\<close> when it returns without calling
  \<^verbatim>\<open>event.respondWith\<close> (the request goes to the network untouched), and the
  strategy's result otherwise.
\<close>

definition fetch_listener ::
  "network \<Rightarrow> (string \<Rightarrow> int option) \<Rightarrow> int \<Rightarrow> cache_storage \<Rightarrow> request
     \<Rightarrow> strategy_result option" where
  "fetch_listener net parseDate now st request =
     (if http_method request \<noteq> ''GET'' then None
      else if startsWith (pathname request) ''/api/''
        then Some (networkFirstStrategy net st request DYNAMIC_CACHE)
      else if destination request = ''image''
        then Some (cacheFirstStrategy net parseDate now st request IMAGE_CACHE)
      else if match_static (pathname request)
        then Some (cacheFirstStrategy net parseDate now st request STATIC_CACHE)
      else Some (networkFirstStrategy net st request CACHE_NAME))"

section \<open>The push listener\<close>

text \<open>
  \<^verbatim>\<open>event.data\<close> is absent or carries the payload's text. \<^verbatim>\<open>event.data.json()\<close> is
  the platform's parser, a parameter: \<open>None\<close> when it throws, and otherwise the fields
  of the parsed object (with string values). The spread
  \<^verbatim>\<open>{ ...notificationData, ...event.data.json() }\<close> lets every field of the parsed
  object replace the default. The Arabic literals of the source are written as their
  UTF-8 bytes.
\<close>

record notificationData =
  title :: string
  nbody :: string
  icon :: string
  badge :: string
  nurl :: "string option"

definition default_body :: string where
  "default_body =
     [CHR 0xD8, CHR 0xA5, CHR 0xD8, CHR 0xB4, CHR 0xD8, CHR 0xB9, CHR 0xD8, CHR 0xA7,
      CHR 0xD8, CHR 0xB1, CHR 0x20, CHR 0xD9, CHR 0x85, CHR 0xD9, CHR 0x86, CHR 0x20,
      CHR 0x41, CHR 0x6D, CHR 0x69, CHR 0x6E, CHR 0x6F, CHR 0x20, CHR 0x47, CHR 0x79,
      CHR 0x6D]"

definition default_notificationData :: notificationData where
  "default_notificationData =
     \<lparr>title = ''Amino Gym'', nbody = default_body, icon = ''/yacin-gym-logo.png'',
      badge = ''/yacin-gym-logo.png'', nurl = None\<rparr>"

definition spread :: "notificationData \<Rightarrow> (string \<rightharpoonup> string) \<Rightarrow> notificationData" where
  "spread d j =
     \<lparr>title = (case j ''title'' of Some v \<Rightarrow> v | None \<Rightarrow> title d),
      nbody = (case j ''body'' of Some v \<Rightarrow> v | None \<Rightarrow> nbody d),
      icon = (case j ''icon'' of Some v \<Rightarrow> v | None \<Rightarrow> icon d),
      badge = (case j ''badge'' of Some v \<Rightarrow> v | None \<Rightarrow> badge d),
      nurl = (case j ''url'' of Some v \<Rightarrow> Some v | None \<Rightarrow> nurl d)\<rparr>"

record notification_action =
  action :: string
  action_title :: string
  action_icon :: "string option"

record notification =
  shown_title :: string
  shown_body :: string
  shown_icon :: string
  shown_badge :: string
  vibrate :: "nat list"
  dateOfArrival :: int
  primaryKey :: int
  data_url :: string
  actions :: "notification_action list"
  requireInteraction :: bool
  silent :: bool

definition open_title :: string where
  "open_title =
     [CHR 0xD9, CHR 0x81, CHR 0xD8, CHR 0xAA, CHR 0xD8, CHR 0xAD, CHR 0x20, CHR 0xD8,
      CHR 0xA7, CHR 0xD9, CHR 0x84, CHR 0xD8, CHR 0xAA, CHR 0xD8, CHR 0xB7, CHR 0xD8,
      CHR 0xA8, CHR 0xD9, CHR 0x8A, CHR 0xD9, CHR 0x82]"

definition close_title :: string where
  "close_title =
     [CHR 0xD8, CHR 0xA5, CHR 0xD8, CHR 0xBA, CHR 0xD9, CHR 0x84, CHR 0xD8, CHR 0xA7,
      CHR 0xD9, CHR 0x82]"

text \<open>
  The listener's effect is the call \<^verbatim>\<open>self.registration.showNotification(title, options)\<close>:
  the model appends the notification to those the registration shows.
\<close>

definition push_listener ::
  "(string \<Rightarrow> (string \<rightharpoonup> string) option) \<Rightarrow> int \<Rightarrow> string option \<Rightarrow> notification list
     \<Rightarrow> notification list" where
  "push_listener json now data shown =
     (let notificationData =
            (case data of
               None \<Rightarrow> default_notificationData
             | Some payload \<Rightarrow>
                 (case json payload of
                    Some parsed \<Rightarrow> spread default_notificationData parsed
                  | None \<Rightarrow> default_notificationData\<lparr>nbody := payload\<rparr>))
      in shown @
         [\<lparr>shown_title = title notificationData,
           shown_body = nbody notificationData,
           shown_icon = icon notificationData,
           shown_badge = badge notificationData,
           vibrate = [100, 50, 100],
           dateOfArrival = now,
           primaryKey = now,
           data_url = (case nurl notificationData of
                         None \<Rightarrow> ''/''
                       | Some u \<Rightarrow> if u = [] then ''/'' else u),
           actions =
             [\<lparr>action = ''open'', action_title = open_title,
               action_icon = Some ''/yacin-gym-logo.png''\<rparr>,
              \<lparr>action = ''close'', action_title = close_title, action_icon = None\<rparr>],
           requireInteraction = False,
           silent = False\<rparr>])"

section \<open>The request classes of the specification\<close>

text \<open>
  The specification's classifier, in its own words and priority order: a request that is
  not a GET is outside the engine (\<open>None\<close>); the path prefix \<^verbatim>\<open>/api/\<close> gives API;
  the destination \<^verbatim>\<open>image\<close> gives Image; a path ending in \<^verbatim>\<open>.js\<close>, \<^verbatim>\<open>.css\<close>,
  \<^verbatim>\<open>.woff\<close> or \<^verbatim>\<open>.woff2\<close> gives StaticAsset; everything else is Document.
  API and Document use Network-First, on the dynamic and the primary cache; Image and
  StaticAsset use Cache-First, on the image and the static cache.
\<close>

datatype ResourceClass = API | Image | StaticAsset | Document

definition classify_spec :: "request \<Rightarrow> ResourceClass option" where
  "classify_spec request =
     (if http_method request \<noteq> ''GET'' then None
      else if prefix ''/api/'' (pathname request) then Some API
      else if destination request = ''image'' then Some Image
      else if suffix ''.js'' (pathname request) \<or> suffix ''.css'' (pathname request)
              \<or> suffix ''.woff'' (pathname request) \<or> suffix ''.woff2'' (pathname request)
        then Some StaticAsset
      else Some Document)"

fun strategy_spec ::
  "ResourceClass \<Rightarrow> network \<Rightarrow> (string \<Rightarrow> int option) \<Rightarrow> int \<Rightarrow> cache_storage \<Rightarrow> request
     \<Rightarrow> strategy_result" where
  "strategy_spec API net parseDate now st request =
     networkFirstStrategy net st request DYNAMIC_CACHE"
| "strategy_spec Document net parseDate now st request =
     networkFirstStrategy net st request CACHE_NAME"
| "strategy_spec Image net parseDate now st request =
     cacheFirstStrategy net parseDate now st request IMAGE_CACHE"
| "strategy_spec StaticAsset net parseDate now st request =
     cacheFirstStrategy net parseDate now st request STATIC_CACHE"

section \<open>Networks, requests and payloads used as examples\<close>

text \<open>
  \<open>fetch_ok\<close>: the fetch of a URL is fulfilled with an ok response. \<open>fetch_storable\<close>:
  it is fulfilled with an ok response that the cache stores. \<open>fetched\<close>: the response a
  fetch is fulfilled with. \<open>all_storable\<close>: every URL of a list fetches an ok response
  that the cache stores.
\<close>

definition fetch_ok :: "network \<Rightarrow> string \<Rightarrow> bool" where
  "fetch_ok net u = (case net u of Rejected e \<Rightarrow> False | Fulfilled r \<Rightarrow> ok r)"

definition fetched :: "network \<Rightarrow> string \<Rightarrow> response option" where
  "fetched net u = (case net u of Rejected e \<Rightarrow> None | Fulfilled r \<Rightarrow> Some r)"

definition fetch_storable :: "network \<Rightarrow> string \<Rightarrow> bool" where
  "fetch_storable net u =
     (case net u of Rejected e \<Rightarrow> False | Fulfilled r \<Rightarrow> ok r \<and> \<not> put_rejects r)"

definition all_storable :: "network \<Rightarrow> string list \<Rightarrow> bool" where
  "all_storable net urls = list_all (fetch_storable net) urls"

text \<open>
  A network that is down, one that answers every URL with status 200 and body \<open>v\<close>,
  one that answers every URL with status 500, and one that answers every URL with a
  partial response (status 206, as to a request with a \<^verbatim>\<open>Range\<close> header).
\<close>

definition offline :: network where
  "offline u = Rejected (FetchError ''offline'')"

definition serving :: "string \<Rightarrow> network" where
  "serving v u = Fulfilled \<lparr>status = 200, body = v, date = None, vary = []\<rparr>"

definition server_error :: network where
  "server_error u = Fulfilled \<lparr>status = 500, body = ''error'', date = None, vary = []\<rparr>"

definition ranged :: network where
  "ranged u = Fulfilled \<lparr>status = 206, body = ''bytes'', date = None, vary = []\<rparr>"

definition navigation_request :: request where
  "navigation_request =
     \<lparr>http_method = ''GET'', url = ''/members'', pathname = ''/members'',
      destination = ''document'', mode = ''navigate''\<rparr>"

definition api_request :: request where
  "api_request =
     \<lparr>http_method = ''GET'', url = ''/api/app.js'', pathname = ''/api/app.js'',
      destination = ''script'', mode = ''no-cors''\<rparr>"

definition manifest_request :: request where
  "manifest_request =
     \<lparr>http_method = ''GET'', url = ''/manifest.json'', pathname = ''/manifest.json'',
      destination = ''manifest'', mode = ''cors''\<rparr>"

definition sound_request :: request where
  "sound_request =
     \<lparr>http_method = ''GET'', url = ''/success-sound.mp3'',
      pathname = ''/success-sound.mp3'', destination = ''audio'', mode = ''no-cors''\<rparr>"

definition logo_request :: request where
  "logo_request =
     \<lparr>http_method = ''GET'', url = ''/yacin-gym-logo.png'',
      pathname = ''/yacin-gym-logo.png'', destination = ''image'', mode = ''no-cors''\<rparr>"

text \<open>A date parser and a JSON parser that accept nothing, and the payload \<^verbatim>\<open>{"body": "not-json\<close>.\<close>

definition unparsed :: "string \<Rightarrow> int option" where
  "unparsed s = None"

definition json_throws :: "string \<Rightarrow> (string \<rightharpoonup> string) option" where
  "json_throws s = None"

definition malformed_payload :: string where
  "malformed_payload =
     [CHR 0x7B, CHR 0x22] @ ''body'' @ [CHR 0x22] @ '': '' @ [CHR 0x22] @ ''not-json''"

section \<open>Facts about the cache storage\<close>

lemmas cache_names = CACHE_NAME_def STATIC_CACHE_def DYNAMIC_CACHE_def IMAGE_CACHE_def

lemma keys_cache_put: "caches_keys (cache_put st n k r) = caches_keys st"
  by (induction st n k r rule: cache_put.induct) (auto simp: caches_keys_def)

lemma entries_cache_put_same:
  "n \<in> set (caches_keys st) \<Longrightarrow>
     namespace_entries (cache_put st n k r) n = (namespace_entries st n)(k \<mapsto> r)"
  by (induction st n k r rule: cache_put.induct) (auto simp: caches_keys_def namespace_entries_def)

lemma entries_cache_put_other:
  "m \<noteq> n \<Longrightarrow> namespace_entries (cache_put st n k r) m = namespace_entries st m"
  by (induction st n k r rule: cache_put.induct) (auto simp: namespace_entries_def)

lemma keys_caches_open: "n \<in> set (caches_keys (caches_open st n))"
  by (simp add: caches_open_def caches_keys_def)

lemma entries_caches_open: "namespace_entries (caches_open st n) m = namespace_entries st m"
proof (cases "n \<in> set (caches_keys st)")
  case True
  then show ?thesis by (simp add: caches_open_def)
next
  case False
  then have "map_of st n = None"
    by (simp add: caches_keys_def map_of_eq_None_iff)
  then show ?thesis
    using False
    by (cases "map_of st m") (auto simp: caches_open_def namespace_entries_def map_add_def)
qed

lemma entries_put_all_same:
  "n \<in> set (caches_keys st) \<Longrightarrow>
     namespace_entries (put_all st n es) n = namespace_entries st n ++ map_of (rev es)"
proof (induction st n es rule: put_all.induct)
  case (1 st name)
  then show ?case by simp
next
  case (2 st name k r es)
  then show ?case
    by (simp add: keys_cache_put entries_cache_put_same map_add_def fun_eq_iff split: option.splits)
qed

lemma entries_put_all_other:
  "m \<noteq> n \<Longrightarrow> namespace_entries (put_all st n es) m = namespace_entries st m"
  by (induction st n es rule: put_all.induct) (simp_all add: entries_cache_put_other)

lemma fetch_all_None: "(fetch_all net us = None) = (\<not> all_storable net us)"
  by (induction us) (auto simp: all_storable_def fetch_storable_def split: fetch_outcome.splits)

lemma fetch_all_Some:
  "fetch_all net us = Some es \<Longrightarrow>
     map_of (rev es) k = (if k \<in> set us then fetched net k else None)"
proof (induction us arbitrary: es)
  case Nil
  then show ?case by simp
next
  case (Cons u us)
  then show ?case
    by (auto simp: fetched_def map_add_def split: fetch_outcome.splits if_splits option.splits)
qed

lemma entries_addAll_same:
  assumes that: "n \<in> set (caches_keys st)"
  shows "namespace_entries (snd (cache_addAll net st n us)) n =
     (if all_storable net us
      then (\<lambda>k. if k \<in> set us then fetched net k else namespace_entries st n k)
      else namespace_entries st n)"
proof (cases "fetch_all net us")
  case None
  then show ?thesis
    using fetch_all_None [of net us] by (simp add: cache_addAll_def)
next
  case (Some es)
  then have "all_storable net us"
    using fetch_all_None [of net us] by simp
  moreover have "\<And>k. k \<in> set us \<Longrightarrow> fetched net k \<noteq> None"
    using \<open>all_storable net us\<close>
    by (auto simp: all_storable_def list_all_iff fetch_storable_def fetched_def
        split: fetch_outcome.splits)
  ultimately show ?thesis
    using Some that
    by (fastforce simp: cache_addAll_def entries_put_all_same fetch_all_Some [OF Some] map_add_def
        fun_eq_iff split: option.splits)
qed


lemma entries_addAll_other:
  "m \<noteq> n \<Longrightarrow> namespace_entries (snd (cache_addAll net st n us)) m = namespace_entries st m"
  by (simp add: cache_addAll_def entries_put_all_other split: option.splits)

lemma fst_addAll: "fst (cache_addAll net st n us) = all_storable net us"
  using fetch_all_None [of net us] by (auto simp: cache_addAll_def split: option.splits)

lemma names_differ: "CACHE_NAME \<noteq> STATIC_CACHE"
  by (simp add: CACHE_NAME_def STATIC_CACHE_def)

lemma install_outcome:
  "fst (install net st) =
     (if all_storable net CRITICAL_RESOURCES \<and> all_storable net STATIC_ASSETS
      then Installed else InstallFailed)"
  by (simp add: install_def Let_def case_prod_beta fst_addAll)

lemma install_storage:
  "snd (install net st) =
     snd (cache_addAll net
       (caches_open (snd (cache_addAll net (caches_open st CACHE_NAME) CACHE_NAME
          CRITICAL_RESOURCES)) STATIC_CACHE)
       STATIC_CACHE STATIC_ASSETS)"
  by (simp add: install_def Let_def case_prod_beta)

lemma install_document_entries:
  "namespace_entries (snd (install net st)) CACHE_NAME =
     (if all_storable net CRITICAL_RESOURCES
      then (\<lambda>k. if k \<in> set CRITICAL_RESOURCES then fetched net k
                else namespace_entries st CACHE_NAME k)
      else namespace_entries st CACHE_NAME)"
  by (simp only: install_storage entries_addAll_other [OF names_differ] entries_caches_open
      entries_addAll_same [OF keys_caches_open])

lemma install_static_entries:
  "namespace_entries (snd (install net st)) STATIC_CACHE =
     (if all_storable net STATIC_ASSETS
      then (\<lambda>k. if k \<in> set STATIC_ASSETS then fetched net k
                else namespace_entries st STATIC_CACHE k)
      else namespace_entries st STATIC_CACHE)"
  by (simp only: install_storage entries_addAll_same [OF keys_caches_open] entries_caches_open
      entries_addAll_other [OF names_differ [symmetric]])


lemma installed_storage:
  "snd (install (serving v) []) =
     [(CACHE_NAME,
       [''/'' \<mapsto> \<lparr>status = 200, body = v, date = None, vary = []\<rparr>,
        ''/home'' \<mapsto> \<lparr>status = 200, body = v, date = None, vary = []\<rparr>,
        ''/login'' \<mapsto> \<lparr>status = 200, body = v, date = None, vary = []\<rparr>,
        ''/yacin-gym-logo.png'' \<mapsto> \<lparr>status = 200, body = v, date = None, vary = []\<rparr>,
        ''/success-sound.mp3'' \<mapsto> \<lparr>status = 200, body = v, date = None, vary = []\<rparr>]),
      (STATIC_CACHE, [''/manifest.json'' \<mapsto> \<lparr>status = 200, body = v, date = None, vary = []\<rparr>])]"
  by (simp add: install_def cache_addAll_def caches_open_def caches_keys_def serving_def ok_def
      put_rejects_def CRITICAL_RESOURCES_def STATIC_ASSETS_def cache_names)

lemma foldl_delete:
  "foldl (\<lambda>s n. if P n then caches_delete s n else s) st ns
     = filter (\<lambda>(n, c). \<not> (P n \<and> n \<in> set ns)) st"
proof (induction ns arbitrary: st)
  case Nil
  then show ?case by simp
next
  case (Cons a ns)
  show ?case
    by (auto simp: Cons.IH caches_delete_def intro!: filter_cong)
qed

lemma activate_filter: "activate st = filter (\<lambda>(n, c). n \<in> set current_caches) st"
  unfolding activate_def foldl_delete caches_keys_def
  by (rule filter_cong) force+

lemma startsWith_prefix: "startsWith s p = prefix p s"
  by (auto simp: startsWith_def prefix_def) (metis append_eq_conv_conj)

lemma match_static_suffix:
  "match_static s =
     (suffix ''.js'' s \<or> suffix ''.css'' s \<or> suffix ''.woff'' s \<or> suffix ''.woff2'' s)"
  by (induction s) (auto simp: suffix_Cons)

lemma all_storable_fetched:
  "all_storable net us \<Longrightarrow> k \<in> set us \<Longrightarrow> \<exists>r. fetched net k = Some r"
  by (auto simp: all_storable_def list_all_iff fetch_storable_def fetched_def
      split: fetch_outcome.splits)




section \<open>Network First, offline navigation (C1)\<close>

text \<open>
  C1. The specification says: a Network-First navigation request whose fetch is rejected
  and whose key matches no cache entry gets the cached entry of \<^verbatim>\<open>"/"\<close> when there
  is one, and otherwise a synthesized response with status 503 and body
  \<^verbatim>\<open>Offline\<close>; no error is thrown.

  The code does not reach the synthesized response. The left operand of \<^verbatim>\<open>||\<close> in
  \<^verbatim>\<open>caches.match("/") || new Response("Offline", { status: 503 })\<close> is a promise,
  which is truthy, so the function resolves to what \<^verbatim>\<open>caches.match("/")\<close> resolves to.
  With an empty cache storage and the network down, the navigation request gets
  \<^verbatim>\<open>undefined\<close>: no error is thrown, and no response is returned either.
\<close>

theorem networkFirst_offline_navigation_undefined:
  "networkFirstStrategy offline [] navigation_request CACHE_NAME = (Inr None, [], [])"
  by (simp add: networkFirstStrategy_def offline_def navigation_request_def truthy_def)

section \<open>Activation (C2)\<close>

text \<open>
  C2, as the code has it. Activation deletes every cache whose name is not one of the
  four current names and keeps every other cache as it is: afterwards the existing
  caches are the caches that existed before and bear a current name. Activation creates
  no cache, so a current name with no cache before has none afterwards.
\<close>

theorem activate_keeps_current_caches:
  "activate st = filter (\<lambda>(n, c). n \<in> set current_caches) st
   \<and> set (caches_keys (activate st)) = set (caches_keys st) \<inter> set current_caches"
  unfolding activate_filter caches_keys_def by force

text \<open>
  That the caches after activation are exactly the four does not hold on the storage an
  installation leaves, with an old cache beside it: the dynamic and the image cache do
  not exist after activation.
\<close>

theorem activate_not_all_four_counterexample:
  "set (caches_keys (activate
          [(CACHE_NAME, Map.empty), (STATIC_CACHE, Map.empty), (''amino-gym-v1'', Map.empty)]))
     \<noteq> set current_caches"
proof -
  have "caches_keys (activate [(CACHE_NAME, Map.empty), (STATIC_CACHE, Map.empty),
          (''amino-gym-v1'', Map.empty)]) = [CACHE_NAME, STATIC_CACHE]"
    by (simp add: activate_filter current_caches_def caches_keys_def cache_names)
  moreover have "IMAGE_CACHE \<in> set current_caches"
    by (simp add: current_caches_def)
  moreover have "IMAGE_CACHE \<notin> set [CACHE_NAME, STATIC_CACHE]"
    by (simp add: cache_names)
  ultimately show ?thesis by metis
qed

theorem activate_keeps_current_caches_witness:
  "caches_keys (activate
     [(CACHE_NAME, Map.empty), (STATIC_CACHE, Map.empty), (''amino-gym-v1'', Map.empty)])
   = [CACHE_NAME, STATIC_CACHE]"
  using activate_keeps_current_caches
    [of "[(CACHE_NAME, Map.empty), (STATIC_CACHE, Map.empty), (''amino-gym-v1'', Map.empty)]"]
  by (simp add: current_caches_def caches_keys_def cache_names)

section \<open>Network First, the fallback to the caches (C3)\<close>

text \<open>
  C3, as the code has it. When the fetch of a Network-First request is rejected, the
  strategy calls \<^verbatim>\<open>caches.match(request)\<close> on the whole cache storage: the request
  key is looked up in every cache in creation order, and the first entry found is
  returned to the caller. The cache name passed to the strategy plays no part in the
  lookup (it is used for the write only).
\<close>

theorem networkFirst_fallback_searches_all_caches:
  assumes "net (url request) = Rejected e"
    and "caches_match st (url request) = Some r"
  shows "networkFirstStrategy net st request cacheName = (Inr (Some r), st, [])"
  using assms by (simp add: networkFirstStrategy_def)

theorem networkFirst_fallback_searches_all_caches_witness:
  "offline (url manifest_request) = Rejected (FetchError ''offline'')
   \<and> caches_match (snd (install (serving ''v1'') [])) (url manifest_request)
       = Some \<lparr>status = 200, body = ''v1'', date = None, vary = []\<rparr>
   \<and> networkFirstStrategy offline (snd (install (serving ''v1'') [])) manifest_request
         DYNAMIC_CACHE
       = (Inr (Some \<lparr>status = 200, body = ''v1'', date = None, vary = []\<rparr>),
          snd (install (serving ''v1'') []), [])"
proof -
  have a: "offline (url manifest_request) = Rejected (FetchError ''offline'')"
    by (simp add: offline_def)
  have b: "caches_match (snd (install (serving ''v1'') [])) (url manifest_request)
       = Some \<lparr>status = 200, body = ''v1'', date = None, vary = []\<rparr>"
    by (simp add: installed_storage manifest_request_def)
  show ?thesis
    using a b networkFirst_fallback_searches_all_caches
      [where net = offline and request = manifest_request
        and st = "snd (install (serving ''v1'') [])" and cacheName = DYNAMIC_CACHE]
    by simp
qed

text \<open>
  That the lookup is in the cache passed to the strategy, and in no other, does not hold
  after an installation: \<^verbatim>\<open>/manifest.json\<close> is a Document request, so the strategy is
  given the primary cache, which has no entry under that key; the network being down,
  the caller gets the entry of the static cache.
\<close>

theorem networkFirst_fallback_other_cache_counterexample:
  "namespace_entries (snd (install (serving ''v1'') [])) CACHE_NAME (url manifest_request) = None
   \<and> fst (networkFirstStrategy offline (snd (install (serving ''v1'') [])) manifest_request
            CACHE_NAME)
       = Inr (Some \<lparr>status = 200, body = ''v1'', date = None, vary = []\<rparr>)"
  by (simp add: installed_storage networkFirstStrategy_def offline_def manifest_request_def
      namespace_entries_def cache_names)

section \<open>Network First, the write of an ok response (C4)\<close>

text \<open>
  C4, as the code has it. The fetch listener calls the strategy with GET requests only.
  When the fetch of a Network-First request is fulfilled, the response is returned to
  the caller. When its status is ok, the strategy has opened the cache it was given
  (creating it when absent) and has called \<^verbatim>\<open>cache.put\<close> with the request key and a
  clone of the response before it returns; the call is not awaited, so the write is
  started, not finished, when the caller gets the response. Once the put has run, the
  entry is in the cache, unless the platform rejects the put (a partial response, or a
  \<^verbatim>\<open>Vary\<close> of \<^verbatim>\<open>*\<close>): then nothing is stored and the rejection reaches no handler.
  When the status is not ok, no cache is opened and no put is started.
\<close>

theorem networkFirst_put_started_before_return:
  assumes "net (url request) = Fulfilled r"
    and "http_method request = ''GET''"
  shows "networkFirstStrategy net st request cacheName =
           (Inr (Some r),
            if ok r then caches_open st cacheName else st,
            if ok r then [CachePut cacheName (url request) r] else [])
         \<and> namespace_entries
             (settle_all net (fst (snd (networkFirstStrategy net st request cacheName)))
                (snd (snd (networkFirstStrategy net st request cacheName))))
             cacheName (url request)
           = (if ok r \<and> \<not> put_rejects r then Some r
              else namespace_entries st cacheName (url request))
         \<and> list_ex (put_unhandled net)
              (snd (snd (networkFirstStrategy net st request cacheName)))
           = (ok r \<and> put_rejects r)"
  using assms
  by (simp add: networkFirstStrategy_def settle_all_def entries_cache_put_same keys_caches_open
      entries_caches_open)

text \<open>
  An API request answered with status 200: the put is started and stores the response.
  A request for the notification sound answered with status 206: the response is
  returned, the primary cache is opened, and the put stores nothing.
\<close>

theorem networkFirst_put_started_before_return_witness:
  "serving ''v1'' (url api_request)
     = Fulfilled \<lparr>status = 200, body = ''v1'', date = None, vary = []\<rparr>
   \<and> http_method api_request = ''GET''
   \<and> networkFirstStrategy (serving ''v1'') [] api_request DYNAMIC_CACHE
       = (Inr (Some \<lparr>status = 200, body = ''v1'', date = None, vary = []\<rparr>),
          [(DYNAMIC_CACHE, Map.empty)],
          [CachePut DYNAMIC_CACHE ''/api/app.js''
             \<lparr>status = 200, body = ''v1'', date = None, vary = []\<rparr>])
   \<and> namespace_entries
        (settle_all (serving ''v1'')
           (fst (snd (networkFirstStrategy (serving ''v1'') [] api_request DYNAMIC_CACHE)))
           (snd (snd (networkFirstStrategy (serving ''v1'') [] api_request DYNAMIC_CACHE))))
        DYNAMIC_CACHE (url api_request)
       = Some \<lparr>status = 200, body = ''v1'', date = None, vary = []\<rparr>
   \<and> ranged (url sound_request)
       = Fulfilled \<lparr>status = 206, body = ''bytes'', date = None, vary = []\<rparr>
   \<and> http_method sound_request = ''GET''
   \<and> fst (networkFirstStrategy ranged [] sound_request CACHE_NAME)
       = Inr (Some \<lparr>status = 206, body = ''bytes'', date = None, vary = []\<rparr>)
   \<and> namespace_entries
        (settle_all ranged (fst (snd (networkFirstStrategy ranged [] sound_request CACHE_NAME)))
           (snd (snd (networkFirstStrategy ranged [] sound_request CACHE_NAME))))
        CACHE_NAME (url sound_request)
       = None"
proof -
  have a: "serving ''v1'' (url api_request)
      = Fulfilled \<lparr>status = 200, body = ''v1'', date = None, vary = []\<rparr>"
    by (simp add: serving_def)
  have b: "http_method api_request = ''GET''"
    by (simp add: api_request_def)
  have c: "ranged (url sound_request)
      = Fulfilled \<lparr>status = 206, body = ''bytes'', date = None, vary = []\<rparr>"
    by (simp add: ranged_def)
  have d: "http_method sound_request = ''GET''"
    by (simp add: sound_request_def)
  have e: "ok \<lparr>status = 200, body = ''v1'', date = None, vary = []\<rparr>"
    "\<not> put_rejects \<lparr>status = 200, body = ''v1'', date = None, vary = []\<rparr>"
    "put_rejects \<lparr>status = 206, body = ''bytes'', date = None, vary = []\<rparr>"
    by (simp_all add: ok_def put_rejects_def)
  have f: "caches_open [] DYNAMIC_CACHE = [(DYNAMIC_CACHE, Map.empty)]"
    "url api_request = ''/api/app.js''"
    "namespace_entries [] CACHE_NAME (url sound_request) = None"
    by (simp_all add: caches_open_def caches_keys_def api_request_def namespace_entries_def)
  note api = networkFirst_put_started_before_return
    [where net = "serving ''v1''" and request = api_request and st = "[]"
      and cacheName = DYNAMIC_CACHE, OF a b]
  note sound = networkFirst_put_started_before_return
    [where net = ranged and request = sound_request and st = "[]"
      and cacheName = CACHE_NAME, OF c d]
  have p1: "networkFirstStrategy (serving ''v1'') [] api_request DYNAMIC_CACHE
       = (Inr (Some \<lparr>status = 200, body = ''v1'', date = None, vary = []\<rparr>),
          [(DYNAMIC_CACHE, Map.empty)],
          [CachePut DYNAMIC_CACHE ''/api/app.js''
             \<lparr>status = 200, body = ''v1'', date = None, vary = []\<rparr>])"
    using api [THEN conjunct1] by (simp add: e f)
  have p2: "namespace_entries
        (settle_all (serving ''v1'')
           (fst (snd (networkFirstStrategy (serving ''v1'') [] api_request DYNAMIC_CACHE)))
           (snd (snd (networkFirstStrategy (serving ''v1'') [] api_request DYNAMIC_CACHE))))
        DYNAMIC_CACHE (url api_request)
       = Some \<lparr>status = 200, body = ''v1'', date = None, vary = []\<rparr>"
    using api [THEN conjunct2, THEN conjunct1] by (simp add: e)
  have p3: "fst (networkFirstStrategy ranged [] sound_request CACHE_NAME)
       = Inr (Some \<lparr>status = 206, body = ''bytes'', date = None, vary = []\<rparr>)"
    using sound [THEN conjunct1] by simp
  have p4: "namespace_entries
        (settle_all ranged (fst (snd (networkFirstStrategy ranged [] sound_request CACHE_NAME)))
           (snd (snd (networkFirstStrategy ranged [] sound_request CACHE_NAME))))
        CACHE_NAME (url sound_request)
       = None"
    using sound [THEN conjunct2, THEN conjunct1] by (simp add: e f)
  show ?thesis
    using a b c d p1 p2 p3 p4 by blast
qed

text \<open>
  That the clone is stored before the response is returned does not hold: at the moment
  the strategy returns an ok response, the cache it was given has no entry under the
  request key yet.
\<close>

theorem networkFirst_entry_absent_at_return_counterexample:
  "fst (networkFirstStrategy (serving ''v1'') [] api_request DYNAMIC_CACHE)
     = Inr (Some \<lparr>status = 200, body = ''v1'', date = None, vary = []\<rparr>)
   \<and> ok \<lparr>status = 200, body = ''v1'', date = None, vary = []\<rparr>
   \<and> namespace_entries
        (fst (snd (networkFirstStrategy (serving ''v1'') [] api_request DYNAMIC_CACHE)))
        DYNAMIC_CACHE (url api_request) = None"
  by (simp add: networkFirstStrategy_def serving_def ok_def caches_open_def caches_keys_def
      namespace_entries_def)

section \<open>Classification of requests (C5)\<close>

text \<open>
  C5. The fetch listener treats every request as the specification's classifier says,
  in its priority order: a request that is not a GET is not intercepted; a GET request
  is answered by the strategy of its one class, on the cache of that class. The
  classifier is a total function, so every request has exactly one class or is outside
  the engine.
\<close>

theorem fetch_listener_classification:
  "fetch_listener net parseDate now st request =
     (case classify_spec request of
        None \<Rightarrow> None
      | Some c \<Rightarrow> Some (strategy_spec c net parseDate now st request))
   \<and> (classify_spec request = None) = (http_method request \<noteq> ''GET'')"
  by (simp add: fetch_listener_def classify_spec_def startsWith_prefix match_static_suffix)

text \<open>
  The path \<^verbatim>\<open>/api/app.js\<close> has the API prefix and a static-asset suffix: the request is
  an API request, answered Network-First on the dynamic cache.
\<close>

theorem fetch_listener_classification_witness:
  "classify_spec api_request = Some API
   \<and> fetch_listener offline unparsed 0 [] api_request
       = Some (networkFirstStrategy offline [] api_request DYNAMIC_CACHE)"
  using fetch_listener_classification [of offline unparsed 0 "[]" api_request]
  by (simp add: classify_spec_def api_request_def)

section \<open>Cache First, a cache hit (C6)\<close>




section \<open>Installation (C7)\<close>

text \<open>
  C7, as the code has it. The installation succeeds exactly when every resource of both
  pre-cache lists fetches an ok response that the cache stores, and fails as a whole
  otherwise: a rejected fetch, a status that is not ok, a partial response (status 206)
  or a \<^verbatim>\<open>Vary\<close> of \<^verbatim>\<open>*\<close> on one resource makes \<^verbatim>\<open>addAll\<close> reject. In the primary
  cache it writes the five entries of \<^verbatim>\<open>CRITICAL_RESOURCES\<close>, each with the response
  fetched, when all five can be stored, and writes nothing otherwise; in the static
  cache it does the same with \<^verbatim>\<open>/manifest.json\<close>. Entries that a cache held before
  under other keys stay: a cache that was absent or empty before a successful
  installation holds exactly the entries of its list afterwards, no more and no fewer.
\<close>

theorem install_precache:
  "fst (install net st) =
     (if all_storable net CRITICAL_RESOURCES \<and> all_storable net STATIC_ASSETS
      then Installed else InstallFailed)
   \<and> namespace_entries (snd (install net st)) CACHE_NAME =
     (if all_storable net CRITICAL_RESOURCES
      then (\<lambda>k. if k \<in> set CRITICAL_RESOURCES then fetched net k
                else namespace_entries st CACHE_NAME k)
      else namespace_entries st CACHE_NAME)
   \<and> namespace_entries (snd (install net st)) STATIC_CACHE =
     (if all_storable net STATIC_ASSETS
      then (\<lambda>k. if k \<in> set STATIC_ASSETS then fetched net k
                else namespace_entries st STATIC_CACHE k)
      else namespace_entries st STATIC_CACHE)
   \<and> dom (namespace_entries (snd (install net st)) CACHE_NAME) =
       dom (namespace_entries st CACHE_NAME)
       \<union> (if all_storable net CRITICAL_RESOURCES then set CRITICAL_RESOURCES else {})
   \<and> dom (namespace_entries (snd (install net st)) STATIC_CACHE) =
       dom (namespace_entries st STATIC_CACHE)
       \<union> (if all_storable net STATIC_ASSETS then set STATIC_ASSETS else {})"
proof -
  have d: "dom (\<lambda>k. if k \<in> set us then fetched net k else m k) = dom m \<union> set us"
    if "all_storable net us" for us and m :: cache
    using all_storable_fetched [OF that] by (auto simp: dom_def)
  show ?thesis
    by (simp add: install_outcome install_document_entries install_static_entries d)
qed

text \<open>
  On an empty cache storage: with every resource answered with status 200 the
  installation succeeds and both caches hold exactly their lists; with every resource
  answered with status 206 it fails and the primary cache holds nothing.
\<close>

theorem install_precache_witness:
  "fst (install (serving ''v1'') []) = Installed
   \<and> dom (namespace_entries (snd (install (serving ''v1'') [])) CACHE_NAME)
       = set CRITICAL_RESOURCES
   \<and> dom (namespace_entries (snd (install (serving ''v1'') [])) STATIC_CACHE)
       = set STATIC_ASSETS
   \<and> fst (install ranged []) = InstallFailed
   \<and> dom (namespace_entries (snd (install ranged [])) CACHE_NAME) = {}"
proof -
  have a: "all_storable (serving ''v1'') CRITICAL_RESOURCES"
    "all_storable (serving ''v1'') STATIC_ASSETS"
    "\<not> all_storable ranged CRITICAL_RESOURCES"
    by (simp_all add: all_storable_def fetch_storable_def serving_def ranged_def ok_def
        put_rejects_def CRITICAL_RESOURCES_def STATIC_ASSETS_def)
  have e: "dom (namespace_entries [] CACHE_NAME) = {}"
    "dom (namespace_entries [] STATIC_CACHE) = {}"
    by (simp_all add: namespace_entries_def)
  note served = install_precache [of "serving ''v1''" "[]"]
  note partial = install_precache [of ranged "[]"]
  have p1: "fst (install (serving ''v1'') []) = Installed"
    using served [THEN conjunct1] by (simp add: a)
  have p2: "dom (namespace_entries (snd (install (serving ''v1'') [])) CACHE_NAME)
       = set CRITICAL_RESOURCES"
    using served [THEN conjunct2, THEN conjunct2, THEN conjunct2, THEN conjunct1]
    by (simp add: a e)
  have p3: "dom (namespace_entries (snd (install (serving ''v1'') [])) STATIC_CACHE)
       = set STATIC_ASSETS"
    using served [THEN conjunct2, THEN conjunct2, THEN conjunct2, THEN conjunct2]
    by (simp add: a e)
  have p4: "fst (install ranged []) = InstallFailed"
    using partial [THEN conjunct1] by (simp add: a)
  have p5: "dom (namespace_entries (snd (install ranged [])) CACHE_NAME) = {}"
    using partial [THEN conjunct2, THEN conjunct2, THEN conjunct2, THEN conjunct1]
    by (simp add: a e)
  show ?thesis
    using p1 p2 p3 p4 p5 by blast
qed

text \<open>
  That the primary cache holds exactly the entries of the list, and no more, does not
  hold when the primary cache exists already: a page stored there by the Network-First
  strategy is still there after a successful installation.
\<close>

theorem install_keeps_other_entries_counterexample:
  "fst (install (serving ''v1'')
          [(CACHE_NAME, [''/dashboard'' \<mapsto> \<lparr>status = 200, body = ''v0'', date = None, vary = []\<rparr>])])
     = Installed
   \<and> ''/dashboard'' \<notin> set CRITICAL_RESOURCES
   \<and> namespace_entries
        (snd (install (serving ''v1'')
           [(CACHE_NAME, [''/dashboard'' \<mapsto> \<lparr>status = 200, body = ''v0'', date = None, vary = []\<rparr>])]))
        CACHE_NAME ''/dashboard''
     = Some \<lparr>status = 200, body = ''v0'', date = None, vary = []\<rparr>"
proof -
  have "namespace_entries
      [(CACHE_NAME, [''/dashboard'' \<mapsto> \<lparr>status = 200, body = ''v0'', date = None, vary = []\<rparr>])]
      CACHE_NAME ''/dashboard'' = Some \<lparr>status = 200, body = ''v0'', date = None, vary = []\<rparr>"
    by (simp add: namespace_entries_def)
  then show ?thesis
    by (simp add: install_outcome install_document_entries all_storable_def fetch_storable_def
        serving_def ok_def put_rejects_def CRITICAL_RESOURCES_def STATIC_ASSETS_def)
qed

section \<open>Push notifications (C8)\<close>

text \<open>
  C8. Every push event shows one notification. When the payload does not parse as JSON,
  the notification has the payload's text as its body and the default title, icon and
  badge.
\<close>

theorem push_malformed_payload_keeps_defaults:
  assumes "json payload = None"
  shows "length (push_listener json now data shown) = Suc (length shown)
       \<and> butlast (push_listener json now (Some payload) shown) = shown
       \<and> shown_title (last (push_listener json now (Some payload) shown)) = ''Amino Gym''
       \<and> shown_body (last (push_listener json now (Some payload) shown)) = payload
       \<and> shown_icon (last (push_listener json now (Some payload) shown))
           = ''/yacin-gym-logo.png''
       \<and> shown_badge (last (push_listener json now (Some payload) shown))
           = ''/yacin-gym-logo.png''"
  using assms
  by (simp add: push_listener_def default_notificationData_def Let_def)

theorem push_malformed_payload_keeps_defaults_witness:
  "json_throws malformed_payload = None
   \<and> length (push_listener json_throws 1700000000000 (Some malformed_payload) []) = 1
   \<and> shown_title (last (push_listener json_throws 1700000000000 (Some malformed_payload) []))
       = ''Amino Gym''
   \<and> shown_body (last (push_listener json_throws 1700000000000 (Some malformed_payload) []))
       = malformed_payload"
proof -
  have a: "json_throws malformed_payload = None"
    by (simp add: json_throws_def)
  show ?thesis
    using a push_malformed_payload_keeps_defaults
      [where json = json_throws and payload = malformed_payload and now = 1700000000000
        and data = "Some malformed_payload" and shown = "[]"]
    by simp
qed

section \<open>No write without an ok response (C9)\<close>

text \<open>
  C9. When the fetch of the request is rejected or is fulfilled with a response that is
  not ok, neither strategy changes the cache storage: it is unchanged when the strategy
  returns, Network First has started no operation, and what Cache First has started (the
  background refetch of a stale hit) leaves the storage as it was.
\<close>

theorem strategies_write_only_ok_responses:
  assumes "\<not> fetch_ok net (url request)"
  shows "fst (snd (networkFirstStrategy net st request cacheName)) = st
       \<and> snd (snd (networkFirstStrategy net st request cacheName)) = []
       \<and> fst (snd (cacheFirstStrategy net parseDate now st request cacheName)) = st
       \<and> settle_all net st
            (snd (snd (cacheFirstStrategy net parseDate now st request cacheName))) = st"
  using assms
  by (auto simp: networkFirstStrategy_def cacheFirstStrategy_def settle_all_def fetch_ok_def
      Let_def split: fetch_outcome.splits option.splits)

theorem strategies_write_only_ok_responses_witness:
  "\<not> fetch_ok server_error (url logo_request)
   \<and> fst (snd (networkFirstStrategy server_error (snd (install (serving ''v1'') []))
        logo_request CACHE_NAME)) = snd (install (serving ''v1'') [])
   \<and> settle_all server_error (snd (install (serving ''v1'') []))
        (snd (snd (cacheFirstStrategy server_error unparsed 1700000000000
           (snd (install (serving ''v1'') [])) logo_request IMAGE_CACHE)))
       = snd (install (serving ''v1'') [])"
proof -
  have a: "\<not> fetch_ok server_error (url logo_request)"
    by (simp add: fetch_ok_def server_error_def ok_def)
  show ?thesis
    using a strategies_write_only_ok_responses [OF a] by simp
qed

section \<open>Cache First, an entry without a date header (C10)\<close>

text \<open>
  C10. A cached response with no \<^verbatim>\<open>date\<close> header gets the epoch as its date. With a
  clock that reads more than one hour after the epoch, it is older than one hour: every
  hit on such an entry starts a background refetch, and the entry is returned to the
  caller.
\<close>

theorem cacheFirst_no_date_header_always_stale:
  assumes "caches_match st (url request) = Some cachedResponse"
    and "date cachedResponse = None"
    and "oneHour < now"
  shows "cacheDate parseDate cachedResponse = Some 0
       \<and> older_than_oneHour parseDate now cachedResponse
       \<and> cacheFirstStrategy net parseDate now st request cacheName =
           (Inr (Some cachedResponse), st, [Revalidate (url request) cacheName])"
  using assms by (simp add: cacheFirstStrategy_def older_than_oneHour_def cacheDate_def)

theorem cacheFirst_no_date_header_always_stale_witness:
  "caches_match [(STATIC_CACHE, [''/app.css'' \<mapsto> \<lparr>status = 200, body = ''css'', date = None, vary = []\<rparr>])]
       ''/app.css'' = Some \<lparr>status = 200, body = ''css'', date = None, vary = []\<rparr>
   \<and> oneHour < 1700000000000
   \<and> cacheFirstStrategy offline unparsed 1700000000000
        [(STATIC_CACHE, [''/app.css'' \<mapsto> \<lparr>status = 200, body = ''css'', date = None, vary = []\<rparr>])]
        \<lparr>http_method = ''GET'', url = ''/app.css'', pathname = ''/app.css'',
         destination = ''style'', mode = ''no-cors''\<rparr> STATIC_CACHE
       = (Inr (Some \<lparr>status = 200, body = ''css'', date = None, vary = []\<rparr>),
          [(STATIC_CACHE, [''/app.css'' \<mapsto> \<lparr>status = 200, body = ''css'', date = None, vary = []\<rparr>])],
          [Revalidate ''/app.css'' STATIC_CACHE])"
proof -
  have a: "caches_match
      [(STATIC_CACHE, [''/app.css'' \<mapsto> \<lparr>status = 200, body = ''css'', date = None, vary = []\<rparr>])]
      (url \<lparr>http_method = ''GET'', url = ''/app.css'', pathname = ''/app.css'',
         destination = ''style'', mode = ''no-cors''\<rparr>)
      = Some \<lparr>status = 200, body = ''css'', date = None, vary = []\<rparr>"
    by simp
  have b: "date \<lparr>status = 200, body = ''css'', date = None, vary = []\<rparr> = None"
    by simp
  have c: "oneHour < 1700000000000"
    by (simp add: oneHour_def)
  show ?thesis
    using a c cacheFirst_no_date_header_always_stale [OF a b c, of unparsed offline STATIC_CACHE]
    by simp
qed

end
